theory Spec2Isabelle
  imports Complex_Main "HOL-Library.Char_ord" "HOL-Library.List_Lexorder"
begin

text \<open>
  The rating pipeline of the repository: match events become player-match rows
  (3\_process\_match\_events.py), the rows become season aggregates and per-90 rates
  (4\_aggregate\_player\_stats.py), and the rates become attributes on the scale 1 to 20,
  four position ratings, the Current Ability (CA) and the Potential Ability (PA)
  (5\_calculate\_player\_attributes.py). The definitions follow these scripts; the
  theorems settle the statements C1 to C10 of the specification against them.
\<close>

section \<open>Numbers of the rating pipeline\<close>

text \<open>
  The scripts compute on pandas columns of 64-bit floats. A float is modelled by a real
  number or by the missing value: \<open>Fin x\<close> is the number \<open>x\<close>, \<open>NaN\<close> is pandas' missing
  value (a NULL of the database, the result of \<open>0/0\<close>). Arithmetic propagates \<open>NaN\<close>, as
  pandas does. Two things are outside the model and are not claimed anywhere below: the
  rounding error of binary floating point, and the infinities of IEEE arithmetic (a
  division of a non-zero number by zero gives \<open>NaN\<close> here).
\<close>

datatype fl = Fin real | NaN

instantiation fl :: "{plus, minus, times, inverse}"
begin

definition plus_fl :: "fl \<Rightarrow> fl \<Rightarrow> fl" where
  "a + b = (case a of Fin x \<Rightarrow> (case b of Fin y \<Rightarrow> Fin (x + y) | NaN \<Rightarrow> NaN) | NaN \<Rightarrow> NaN)"

definition minus_fl :: "fl \<Rightarrow> fl \<Rightarrow> fl" where
  "a - b = (case a of Fin x \<Rightarrow> (case b of Fin y \<Rightarrow> Fin (x - y) | NaN \<Rightarrow> NaN) | NaN \<Rightarrow> NaN)"

definition times_fl :: "fl \<Rightarrow> fl \<Rightarrow> fl" where
  "a * b = (case a of Fin x \<Rightarrow> (case b of Fin y \<Rightarrow> Fin (x * y) | NaN \<Rightarrow> NaN) | NaN \<Rightarrow> NaN)"

definition divide_fl :: "fl \<Rightarrow> fl \<Rightarrow> fl" where
  "a div b = (case a of Fin x \<Rightarrow>
                (case b of Fin y \<Rightarrow> (if y = 0 then NaN else Fin (x / y)) | NaN \<Rightarrow> NaN)
              | NaN \<Rightarrow> NaN)"

definition inverse_fl :: "fl \<Rightarrow> fl" where
  "inverse a = (case a of Fin x \<Rightarrow> (if x = 0 then NaN else Fin (1 / x)) | NaN \<Rightarrow> NaN)"

instance ..

end

text \<open>\<open>Series.fillna(d)\<close>: a missing value becomes \<open>d\<close>, every other value stays.\<close>

definition fillna :: "real \<Rightarrow> fl \<Rightarrow> real" where
  "fillna d v = (case v of Fin x \<Rightarrow> x | NaN \<Rightarrow> d)"

text \<open>
  \<open>round(2)\<close> of pandas and of Python: the value times 100 is rounded to the nearest
  integer, a tie going to the even neighbour, and divided by 100 again.
\<close>

definition rint :: "real \<Rightarrow> int" where
  "rint y =
     (let f = \<lfloor>y\<rfloor>; d = y - of_int f
      in if d < 1 / 2 then f else if 1 / 2 < d then f + 1 else if even f then f else f + 1)"

definition round2 :: "real \<Rightarrow> real" where
  "round2 x = of_int (rint (x * 100)) / 100"

section \<open>The percentile scaler (5\_calculate\_player\_attributes.py, percentile\_to\_1\_20)\<close>

text \<open>
  \<open>Series.rank(pct=True)\<close> ranks by position in sorted order: the values are sorted, the
  places are numbered from 1, every value gets the mean of the places its copies occupy
  (pandas' default method, \<open>average\<close>), and \<open>pct\<close> divides the rank by the number of values.
\<close>

definition tie_positions :: "real list \<Rightarrow> real \<Rightarrow> nat list" where
  "tie_positions xs x = map Suc (filter (\<lambda>i. sort xs ! i = x) [0..<length xs])"

definition rank_average :: "real list \<Rightarrow> real \<Rightarrow> real" where
  "rank_average xs x = real (sum_list (tie_positions xs x)) / real (length (tie_positions xs x))"

definition rank_pct :: "real list \<Rightarrow> real list" where
  "rank_pct xs = map (\<lambda>x. rank_average xs x / real (length xs)) xs"

text \<open>\<open>df_stats["minutes_played"] >= min_minutes\<close>; a comparison with a missing value is false.\<close>

definition qualifies :: "real \<Rightarrow> fl \<Rightarrow> bool" where
  "qualifies min_minutes m = (case m of Fin v \<Rightarrow> min_minutes \<le> v | NaN \<Rightarrow> False)"

text \<open>The last line of the function: min-max scaling of the whole series.\<close>

definition minmax_scaling :: "real list \<Rightarrow> real list" where
  "minmax_scaling s =
     map (\<lambda>x. round2 ((x - Min (set s)) / (Max (set s) - Min (set s) + 1 / 10 ^ 8) * 19 + 1)) s"

text \<open>
  \<open>percentile_to_1_20(series, min_minutes)\<close>. The function reads the global frame's column
  \<open>minutes_played\<close>, here the first argument. \<open>s[mask]\<close> keeps the entries whose mask is true.
\<close>

definition percentile_to_1_20 :: "fl list \<Rightarrow> fl list \<Rightarrow> real \<Rightarrow> real list" where
  "percentile_to_1_20 minutes_col series min_minutes =
     (let s = map (fillna 0) series;
          mask = map (qualifies min_minutes) minutes_col
      in if 0 < length (filter id mask)
         then (let baseline = map fst (filter snd (zip s mask))
               in if 0 < length baseline
                  then map (\<lambda>r. round2 (1 + r * 19)) (rank_pct s)
                  else minmax_scaling s)
         else minmax_scaling s)"



section \<open>Match events to player-match rows (3\_process\_match\_events.py)\<close>

text \<open>
  One event of a match, with the columns the passing statistics read. \<open>ev_player\<close> is
  missing on events that belong to no player. An events frame holds the events of one
  match, the match's competition and season as found in the database (\<open>None\<close> when the
  match is not there), and which optional columns the frame has.
\<close>

record event =
  ev_player :: "string option"
  ev_minute :: nat
  ev_type :: string
  ev_pass_outcome :: "string option"
  ev_pass_goal_assist :: "bool option"
  ev_shot_outcome :: "string option"

record events_frame =
  rows :: "event list"
  match_info :: "(int \<times> int) option"
  has_pass_outcome :: bool
  has_pass_goal_assist :: bool
  has_shot_outcome :: bool

text \<open>
  The row written for one player of one match. The script writes further count columns
  (shots, dribbles, tackles, duels, pressures, fouls, cards), each the length of a
  filtered frame like the ones below; only the passing columns are carried here.
\<close>

record player_match =
  pm_player :: string
  pm_competition_id :: int
  pm_season_id :: int
  pm_minutes_played :: nat
  pm_matches_played :: nat
  pm_passes :: nat
  pm_completed_passes :: nat
  pm_key_passes :: nat
  pm_assists :: nat

text \<open>\<open>Series.dropna().unique()\<close>: the distinct values in order of first appearance.\<close>

definition unique :: "'a list \<Rightarrow> 'a list" where
  "unique xs = rev (remdups (rev xs))"

definition player_stat :: "events_frame \<Rightarrow> int \<Rightarrow> int \<Rightarrow> string \<Rightarrow> nat \<Rightarrow> player_match" where
  "player_stat events comp_id season_id player minutes =
     (let player_events = filter (\<lambda>e. ev_player e = Some player) (rows events);
          passes = filter (\<lambda>e. ev_type e = ''Pass'') player_events;
          completed_passes =
            (if has_pass_outcome events
             then filter (\<lambda>e. ev_pass_outcome e = Some ''Complete'') passes else passes);
          key_passes =
            (if has_pass_goal_assist events
             then filter (\<lambda>e. ev_pass_goal_assist e = Some True) passes else []);
          shots = filter (\<lambda>e. ev_type e = ''Shot'') player_events;
          goals =
            (if has_shot_outcome events
             then filter (\<lambda>e. ev_shot_outcome e = Some ''Goal'') shots else [])
      in \<lparr>pm_player = player, pm_competition_id = comp_id, pm_season_id = season_id,
          pm_minutes_played = minutes, pm_matches_played = 1,
          pm_passes = length passes, pm_completed_passes = length completed_passes,
          pm_key_passes = length key_passes, pm_assists = length goals\<rparr>)"

text \<open>
  The loop over the players of a match. \<open>minutes\<close> is the largest event minute of the
  player; a player whose minutes are 0 is passed over by \<open>continue\<close>.
\<close>

fun player_loop :: "events_frame \<Rightarrow> int \<Rightarrow> int \<Rightarrow> string list \<Rightarrow> player_match list" where
  "player_loop events comp_id season_id [] = []"
| "player_loop events comp_id season_id (player # rest) =
     (let player_events = filter (\<lambda>e. ev_player e = Some player) (rows events);
          minutes = (if 0 < length player_events
                     then Max (set (map ev_minute player_events)) else 0)
      in if minutes = 0 then player_loop events comp_id season_id rest
         else player_stat events comp_id season_id player minutes
                # player_loop events comp_id season_id rest)"

definition process_match :: "events_frame \<Rightarrow> player_match list" where
  "process_match events =
     (if length (rows events) = 0 then []
      else case match_info events of
             None \<Rightarrow> []
           | Some (comp_id, season_id) \<Rightarrow>
               player_loop events comp_id season_id
                 (unique (List.map_filter ev_player (rows events))))"

text \<open>\<open>pd.concat(all_players)\<close>: the rows of all matches, in match order.\<close>

definition process_matches :: "events_frame list \<Rightarrow> player_match list" where
  "process_matches matches = concat (map process_match matches)"

section \<open>Season aggregates and per-90 rates (4\_aggregate\_player\_stats.py)\<close>

record season_aggregate =
  ag_player :: string
  ag_minutes_played :: nat
  ag_matches_played :: nat
  ag_passes :: nat
  ag_completed_passes :: nat
  ag_key_passes :: nat
  ag_assists :: nat

text \<open>\<open>groupby("player").agg(... "sum")\<close>: one row per player, players in sorted order.\<close>

definition aggregate :: "player_match list \<Rightarrow> season_aggregate list" where
  "aggregate df_players =
     map (\<lambda>p. let g = filter (\<lambda>r. pm_player r = p) df_players
              in \<lparr>ag_player = p,
                  ag_minutes_played = sum_list (map pm_minutes_played g),
                  ag_matches_played = sum_list (map pm_matches_played g),
                  ag_passes = sum_list (map pm_passes g),
                  ag_completed_passes = sum_list (map pm_completed_passes g),
                  ag_key_passes = sum_list (map pm_key_passes g),
                  ag_assists = sum_list (map pm_assists g)\<rparr>)
         (sort (remdups (map pm_player df_players)))"

record rate_row =
  rt_player :: string
  rt_minutes_played :: nat
  rt_matches_played :: nat
  rt_passes_per90 :: fl
  rt_completed_passes_per90 :: fl
  rt_pass_accuracy :: fl
  rt_key_passes_per90 :: fl
  rt_assists_per90 :: fl

text \<open>
  The per-90 columns of the passing group (lines 66 to 73). Every other per-90 column of
  the script is \<open>count / minutes_90\<close> in the same way.
\<close>

definition per90 :: "season_aggregate \<Rightarrow> rate_row" where
  "per90 agg =
     (let minutes_90 = Fin (real (ag_minutes_played agg)) / Fin 90
      in \<lparr>rt_player = ag_player agg,
          rt_minutes_played = ag_minutes_played agg,
          rt_matches_played = ag_matches_played agg,
          rt_passes_per90 = Fin (real (ag_passes agg)) / minutes_90,
          rt_completed_passes_per90 = Fin (real (ag_completed_passes agg)) / minutes_90,
          rt_pass_accuracy =
            Fin (fillna 0 (Fin (real (ag_completed_passes agg)) / Fin (real (ag_passes agg))
                           * Fin 100)),
          rt_key_passes_per90 = Fin (real (ag_key_passes agg)) / minutes_90,
          rt_assists_per90 = Fin (real (ag_assists agg)) / minutes_90\<rparr>)"

definition stage4 :: "player_match list \<Rightarrow> rate_row list" where
  "stage4 df_players = map per90 (aggregate df_players)"

section \<open>Attributes and ratings (5\_calculate\_player\_attributes.py)\<close>

text \<open>
  A row of the frame \<open>df_stats\<close>, read from the tables \<open>player_stats\<close> and \<open>players\<close>, with
  the columns the script reads.
\<close>

record player_stats =
  player_name :: string
  competition_id :: int
  minutes_played :: fl
  passes_per90 :: fl
  pass_accuracy :: fl
  key_passes_per90 :: fl
  assists_per90 :: fl
  shots_per90 :: fl
  shots_on_target_per90 :: fl
  goals_per90 :: fl
  xG_per90 :: fl
  dribbles_per90 :: fl
  dribbles_successful_per90 :: fl
  tackles_per90 :: fl
  tackles_won_per90 :: fl
  interceptions_per90 :: fl
  clearances_per90 :: fl
  aerial_duels_per90 :: fl
  aerial_duels_won_per90 :: fl
  saves_per90 :: fl
  clean_sheets :: fl
  goals_conceded_per90 :: fl
  pressures_per90 :: fl

text \<open>Line 36: the column \<open>touches_per90\<close> is computed, whatever the table held.\<close>

definition touches_per90 :: "player_stats \<Rightarrow> fl" where
  "touches_per90 x = Fin (fillna 0 (passes_per90 x + dribbles_per90 x))"

definition league_coeffs :: "(int \<times> real) list" where
  "league_coeffs =
     [(2, 1.0), (49, 0.95), (11, 0.9), (12, 0.85), (9, 0.8),
      (37, 1.1), (38, 0.9), (55, 0.8),
      (43, 1.05), (50, 1.0), (72, 0.85), (44, 0.8), (45, 0.75)]"

definition get_league_coefficient :: "int \<Rightarrow> real" where
  "get_league_coefficient comp_id =
     (case map_of league_coeffs comp_id of Some c \<Rightarrow> c | None \<Rightarrow> 0.8)"

definition calculate_age_factor :: "int \<Rightarrow> real" where
  "calculate_age_factor age =
     (if age \<le> 21 then 1.1 else if age \<le> 25 then 1.05 else if age \<le> 30 then 1.0 else 0.95)"

text \<open>
  The generator of NumPy is not part of the repository. A run takes its draws from a
  source: \<open>raw_ints\<close> are the raw integers behind \<open>randint\<close>, \<open>gauss\<close> the standard normal
  draws behind \<open>normal\<close>. \<open>randint(low, high, n)\<close> gives \<open>n\<close> integers from \<open>low\<close> up to
  \<open>high - 1\<close>; \<open>normal(loc, scale)\<close> is \<open>loc + scale * g\<close> for a standard normal draw \<open>g\<close>.
\<close>

record random_source =
  raw_ints :: "nat \<Rightarrow> nat"
  gauss :: "nat \<Rightarrow> real"

definition randint :: "int \<Rightarrow> int \<Rightarrow> nat \<Rightarrow> (nat \<Rightarrow> nat) \<Rightarrow> int list" where
  "randint low high n raw = map (\<lambda>i. low + int (raw i mod nat (high - low))) [0..<n]"

definition normal :: "real \<Rightarrow> real \<Rightarrow> real \<Rightarrow> real" where
  "normal loc scale g = loc + scale * g"

text \<open>
  The value each attribute hands to the scaler, for one row \<open>x\<close> and its age (line 74
  gives every row an \<open>age\<close> column, so \<open>x.get('age', 25)\<close> reads that column).
\<close>

definition passing_raw :: "player_stats \<Rightarrow> int \<Rightarrow> fl" where
  "passing_raw x age =
     (passes_per90 x * Fin 0.3 + pass_accuracy x * Fin 0.25 + key_passes_per90 x * Fin 0.25
        + assists_per90 x * Fin 0.2)
       * Fin (get_league_coefficient (competition_id x)) * Fin (calculate_age_factor age)"

definition shooting_raw :: "player_stats \<Rightarrow> int \<Rightarrow> fl" where
  "shooting_raw x age =
     (goals_per90 x * Fin 0.3 + xG_per90 x * Fin 0.25 + shots_on_target_per90 x * Fin 0.25
        + (goals_per90 x / (shots_per90 x + Fin 0.1)) * Fin 0.2)
       * Fin (get_league_coefficient (competition_id x))"

definition dribbling_raw :: "player_stats \<Rightarrow> int \<Rightarrow> fl" where
  "dribbling_raw x age =
     (dribbles_per90 x * Fin 0.4 + dribbles_successful_per90 x * Fin 0.4
        + (dribbles_successful_per90 x / (dribbles_per90 x + Fin 0.1)) * Fin 0.2)
       * Fin (get_league_coefficient (competition_id x))"

definition first_touch_raw :: "player_stats \<Rightarrow> int \<Rightarrow> fl" where
  "first_touch_raw x age =
     (dribbles_successful_per90 x * Fin 0.4 + pass_accuracy x * Fin 0.3
        + touches_per90 x * Fin 0.3)
       * Fin (calculate_age_factor age)"

definition crossing_raw :: "player_stats \<Rightarrow> int \<Rightarrow> fl" where
  "crossing_raw x age =
     (key_passes_per90 x * Fin 0.5 + assists_per90 x * Fin 0.3 + pass_accuracy x * Fin 0.2)
       * Fin (get_league_coefficient (competition_id x))"

definition finishing_raw :: "player_stats \<Rightarrow> int \<Rightarrow> fl" where
  "finishing_raw x age =
     goals_per90 x * Fin 0.4 + shots_on_target_per90 x * Fin 0.3
       + (goals_per90 x / (xG_per90 x + Fin 0.1)) * Fin 0.3"

definition long_shots_raw :: "player_stats \<Rightarrow> int \<Rightarrow> fl" where
  "long_shots_raw x age =
     (shots_per90 x * Fin 0.4 + xG_per90 x * Fin 0.3
        + (shots_on_target_per90 x / (shots_per90 x + Fin 0.1)) * Fin 0.3)
       * Fin (get_league_coefficient (competition_id x))"

definition pace_raw :: "player_stats \<Rightarrow> int \<Rightarrow> fl" where
  "pace_raw x age =
     (dribbles_per90 x * Fin 0.4 + pressures_per90 x * Fin 0.3
        + dribbles_successful_per90 x * Fin 0.3)
       * Fin (calculate_age_factor age)"

definition acceleration_raw :: "player_stats \<Rightarrow> int \<Rightarrow> fl" where
  "acceleration_raw x age =
     (dribbles_successful_per90 x * Fin 0.5 + dribbles_per90 x * Fin 0.3
        + pressures_per90 x * Fin 0.2)
       * Fin (if age \<le> 23 then 1.1 else 1.0)"

definition stamina_raw :: "player_stats \<Rightarrow> int \<Rightarrow> fl" where
  "stamina_raw x age =
     (minutes_played x / Fin 1000 * Fin 0.4 + pressures_per90 x * Fin 0.3
        + tackles_per90 x * Fin 0.3)
       * Fin (if 30 < age then 0.9 else 1.0)"

definition strength_raw :: "player_stats \<Rightarrow> int \<Rightarrow> fl" where
  "strength_raw x age =
     (aerial_duels_per90 x * Fin 0.4 + tackles_per90 x * Fin 0.3
        + aerial_duels_won_per90 x * Fin 0.3)
       * Fin (if 25 \<le> age \<and> age \<le> 30 then 1.05 else 1.0)"

definition jumping_reach_raw :: "player_stats \<Rightarrow> int \<Rightarrow> fl" where
  "jumping_reach_raw x age =
     (aerial_duels_won_per90 x * Fin 0.6 + aerial_duels_per90 x * Fin 0.4)
       * Fin (if 25 \<le> age \<and> age \<le> 30 then 1.05 else 1.0)"

definition positioning_raw :: "player_stats \<Rightarrow> int \<Rightarrow> fl" where
  "positioning_raw x age =
     (interceptions_per90 x * Fin 0.3 + key_passes_per90 x * Fin 0.25
        + pressures_per90 x * Fin 0.25 + tackles_per90 x * Fin 0.2)
       * Fin (if 28 \<le> age then 1.1 else 1.0)"

definition vision_raw :: "player_stats \<Rightarrow> int \<Rightarrow> fl" where
  "vision_raw x age =
     (key_passes_per90 x * Fin 0.4 + assists_per90 x * Fin 0.3 + passes_per90 x * Fin 0.3)
       * Fin (get_league_coefficient (competition_id x))"

definition composure_raw :: "player_stats \<Rightarrow> int \<Rightarrow> fl" where
  "composure_raw x age =
     pass_accuracy x * Fin 0.4 + dribbles_successful_per90 x * Fin 0.3 + goals_per90 x * Fin 0.3"

definition concentration_raw :: "player_stats \<Rightarrow> int \<Rightarrow> fl" where
  "concentration_raw x age =
     (interceptions_per90 x * Fin 0.4 + tackles_won_per90 x * Fin 0.3
        + clearances_per90 x * Fin 0.3)
       * Fin (if 26 \<le> age then 1.1 else 1.0)"

definition decisions_raw :: "player_stats \<Rightarrow> int \<Rightarrow> fl" where
  "decisions_raw x age =
     (key_passes_per90 x * Fin 0.3 + tackles_won_per90 x * Fin 0.25
        + dribbles_successful_per90 x * Fin 0.25
        + (assists_per90 x + goals_per90 x) * Fin 0.2)
       * Fin (if 24 \<le> age then 1.1 else 1.0)"

definition leadership_raw :: "player_stats \<Rightarrow> int \<Rightarrow> fl" where
  "leadership_raw x age =
     (minutes_played x / Fin 1000 * Fin 0.4 + assists_per90 x * Fin 0.3
        + goals_per90 x * Fin 0.3)
       * Fin (if 28 \<le> age then 1.2 else 1.0)"

definition tackling_raw :: "player_stats \<Rightarrow> int \<Rightarrow> fl" where
  "tackling_raw x age =
     (tackles_won_per90 x * Fin 0.5 + tackles_per90 x * Fin 0.3
        + (tackles_won_per90 x / (tackles_per90 x + Fin 0.1)) * Fin 0.2)
       * Fin (if 25 \<le> age \<and> age \<le> 30 then 1.05 else 1.0)"

definition marking_raw :: "player_stats \<Rightarrow> int \<Rightarrow> fl" where
  "marking_raw x age =
     (interceptions_per90 x * Fin 0.4 + pressures_per90 x * Fin 0.3
        + tackles_per90 x * Fin 0.3)
       * Fin (if 26 \<le> age then 1.1 else 1.0)"

definition heading_raw :: "player_stats \<Rightarrow> int \<Rightarrow> fl" where
  "heading_raw x age =
     (aerial_duels_won_per90 x * Fin 0.6 + aerial_duels_per90 x * Fin 0.4)
       * Fin (if 25 \<le> age \<and> age \<le> 30 then 1.05 else 1.0)"

definition goalkeeping_raw :: "player_stats \<Rightarrow> int \<Rightarrow> fl" where
  "goalkeeping_raw x age =
     (saves_per90 x * Fin 0.4 + clean_sheets x * Fin 0.3
        + (Fin 100 - goals_conceded_per90 x * Fin 10) * Fin 0.3)
       * Fin (if 26 \<le> age then 1.1 else 1.0)"

definition reflexes_raw :: "player_stats \<Rightarrow> int \<Rightarrow> fl" where
  "reflexes_raw x age = saves_per90 x * Fin (if age \<le> 28 then 1.05 else 1.0)"

definition handling_raw :: "player_stats \<Rightarrow> int \<Rightarrow> fl" where
  "handling_raw x age =
     (clean_sheets x * Fin 0.6 + pass_accuracy x * Fin 0.4)
       * Fin (if 26 \<le> age then 1.1 else 1.0)"

definition kicking_raw :: "player_stats \<Rightarrow> int \<Rightarrow> fl" where
  "kicking_raw x age =
     (passes_per90 x * Fin 0.5 + pass_accuracy x * Fin 0.5)
       * Fin (get_league_coefficient (competition_id x))"

text \<open>
  An attribute column: the raw values of all rows go through the scaler, with the
  default \<open>min_minutes = 500\<close>.
\<close>

definition scaled :: "(player_stats \<Rightarrow> int \<Rightarrow> fl) \<Rightarrow> player_stats list \<Rightarrow> int list \<Rightarrow> real list" where
  "scaled raw df_stats ages =
     percentile_to_1_20 (map minutes_played df_stats) (map2 raw df_stats ages) 500"

record attrs =
  passing :: real
  shooting :: real
  dribbling :: real
  first_touch :: real
  crossing :: real
  finishing :: real
  long_shots :: real
  pace :: real
  acceleration :: real
  stamina :: real
  strength :: real
  jumping_reach :: real
  positioning :: real
  vision :: real
  composure :: real
  concentration :: real
  decisions :: real
  leadership :: real
  tackling :: real
  marking :: real
  heading :: real
  goalkeeping :: real
  reflexes :: real
  handling :: real
  kicking :: real

definition attributes_at :: "player_stats list \<Rightarrow> int list \<Rightarrow> nat \<Rightarrow> attrs" where
  "attributes_at df_stats ages i =
     \<lparr>passing = scaled passing_raw df_stats ages ! i,
      shooting = scaled shooting_raw df_stats ages ! i,
      dribbling = scaled dribbling_raw df_stats ages ! i,
      first_touch = scaled first_touch_raw df_stats ages ! i,
      crossing = scaled crossing_raw df_stats ages ! i,
      finishing = scaled finishing_raw df_stats ages ! i,
      long_shots = scaled long_shots_raw df_stats ages ! i,
      pace = scaled pace_raw df_stats ages ! i,
      acceleration = scaled acceleration_raw df_stats ages ! i,
      stamina = scaled stamina_raw df_stats ages ! i,
      strength = scaled strength_raw df_stats ages ! i,
      jumping_reach = scaled jumping_reach_raw df_stats ages ! i,
      positioning = scaled positioning_raw df_stats ages ! i,
      vision = scaled vision_raw df_stats ages ! i,
      composure = scaled composure_raw df_stats ages ! i,
      concentration = scaled concentration_raw df_stats ages ! i,
      decisions = scaled decisions_raw df_stats ages ! i,
      leadership = scaled leadership_raw df_stats ages ! i,
      tackling = scaled tackling_raw df_stats ages ! i,
      marking = scaled marking_raw df_stats ages ! i,
      heading = scaled heading_raw df_stats ages ! i,
      goalkeeping = scaled goalkeeping_raw df_stats ages ! i,
      reflexes = scaled reflexes_raw df_stats ages ! i,
      handling = scaled handling_raw df_stats ages ! i,
      kicking = scaled kicking_raw df_stats ages ! i\<rparr>"

text \<open>
  \<open>compute_position_CA(row, position_type)\<close>: the row is given by its statistics \<open>x\<close>, its
  age and its attributes \<open>a\<close>; the weights pair a column with its weight.
\<close>

definition compute_position_CA :: "player_stats \<Rightarrow> int \<Rightarrow> attrs \<Rightarrow> string \<Rightarrow> real" where
  "compute_position_CA x age a position_type =
     (let weights =
            (if position_type = ''GK''
             then [(goalkeeping, 0.4), (reflexes, 0.2), (handling, 0.2), (kicking, 0.2)]
             else if position_type = ''DEF''
             then [(tackling, 0.25), (marking, 0.25), (heading, 0.2), (positioning, 0.15),
                   (pace, 0.15)]
             else if position_type = ''MID''
             then [(passing, 0.25), (vision, 0.2), (positioning, 0.15), (dribbling, 0.15),
                   (tackling, 0.15), (stamina, 0.1)]
             else [(shooting, 0.3), (pace, 0.2), (dribbling, 0.2), (finishing, 0.15),
                   (positioning, 0.15)]);
          base_ca = sum_list (map (\<lambda>(k, w). k a * w) weights);
          league_coeff = get_league_coefficient (competition_id x);
          age_factor =
            (if position_type = ''GK'' then (if 28 \<le> age \<and> age \<le> 32 then 1.1 else 1.0)
             else if position_type = ''DEF'' then (if 26 \<le> age \<and> age \<le> 30 then 1.05 else 1.0)
             else if position_type = ''MID'' then (if 24 \<le> age \<and> age \<le> 28 then 1.05 else 1.0)
             else (if 22 \<le> age \<and> age \<le> 26 then 1.05 else 1.0))
      in round2 (base_ca * league_coeff * age_factor))"

text \<open>Lines 301 to 307: the overall CA from the four position CAs.\<close>

definition overall_CA :: "real \<Rightarrow> real \<Rightarrow> real \<Rightarrow> real \<Rightarrow> real" where
  "overall_CA ca_gk ca_def ca_mid ca_fwd =
     round2 (ca_gk * 0.1 + ca_def * 0.3 + ca_mid * 0.3 + ca_fwd * 0.3)"

text \<open>\<open>compute_PA(ca, age)\<close>; \<open>g\<close> is the standard normal draw behind \<open>np.random.normal\<close>.\<close>

definition compute_PA :: "real \<Rightarrow> int \<Rightarrow> real \<Rightarrow> real" where
  "compute_PA ca age g =
     (let (base_uplift, variance) =
            (if age \<le> 20 then (6, 2)
             else if age \<le> 24 then (4, 1.5)
             else if age \<le> 28 then (2, 1)
             else (0, 0.5));
          total_uplift = base_uplift + normal 0 variance g
      in min 20 (max ca (ca + total_uplift)))"

text \<open>A row of the table \<open>player_attributes\<close> the script writes.\<close>

record rating =
  r_player_name :: string
  r_attrs :: attrs
  CA :: real
  PA :: real
  CA_GK :: real
  CA_DEF :: real
  CA_MID :: real
  CA_FWD :: real

definition rating_at :: "player_stats list \<Rightarrow> int list \<Rightarrow> (nat \<Rightarrow> real) \<Rightarrow> nat \<Rightarrow> rating" where
  "rating_at df_stats ages gs i =
     (let x = df_stats ! i;
          age = ages ! i;
          a = attributes_at df_stats ages i;
          ca_gk = compute_position_CA x age a ''GK'';
          ca_def = compute_position_CA x age a ''DEF'';
          ca_mid = compute_position_CA x age a ''MID'';
          ca_fwd = compute_position_CA x age a ''FWD'';
          ca = overall_CA ca_gk ca_def ca_mid ca_fwd
      in \<lparr>r_player_name = player_name x, r_attrs = a, CA = ca, PA = compute_PA ca age (gs i),
          CA_GK = ca_gk, CA_DEF = ca_def, CA_MID = ca_mid, CA_FWD = ca_fwd\<rparr>)"

text \<open>
  A run of the script. With no rows it prints a message and calls \<open>exit()\<close>, which ends the
  process with status 0 before any table is touched: \<open>Exit status message\<close>. Otherwise
  the ages are drawn (line 74), every row is rated and the table is replaced: \<open>Saved\<close>.
\<close>

datatype outcome = Exit nat string | Saved "rating list"

definition draw_ages :: "player_stats list \<Rightarrow> random_source \<Rightarrow> int list" where
  "draw_ages df_stats src = randint 18 35 (length df_stats) (raw_ints src)"

definition script5 :: "player_stats list \<Rightarrow> random_source \<Rightarrow> outcome" where
  "script5 df_stats src =
     (if length df_stats = 0 then Exit 0 ''No player stats found in database''
      else (let ages = draw_ages df_stats src
            in Saved (map (rating_at df_stats ages (gauss src)) [0..<length df_stats])))"

definition exit_status :: "outcome \<Rightarrow> nat" where
  "exit_status out = (case out of Exit status message \<Rightarrow> status | Saved table \<Rightarrow> 0)"

section \<open>The enhanced overall CA (map\_stats\_bomb\_db\_fixed.py)\<close>




section \<open>Example inputs\<close>

text \<open>
  A player of competition 37 (coefficient 1.1 in the table above), and the same statistics
  filed under competition 0 with fewer minutes, as 4\_aggregate\_player\_stats.py files
  every row.
\<close>

definition champions_league_player :: player_stats where
  "champions_league_player =
     \<lparr>player_name = ''A'', competition_id = 37, minutes_played = Fin 900,
      passes_per90 = Fin 45, pass_accuracy = Fin 80, key_passes_per90 = Fin 2,
      assists_per90 = Fin 0.3, shots_per90 = Fin 2, shots_on_target_per90 = Fin 1,
      goals_per90 = Fin 0.5, xG_per90 = Fin 0.4, dribbles_per90 = Fin 3,
      dribbles_successful_per90 = Fin 2, tackles_per90 = Fin 2, tackles_won_per90 = Fin 1,
      interceptions_per90 = Fin 1, clearances_per90 = Fin 1, aerial_duels_per90 = Fin 2,
      aerial_duels_won_per90 = Fin 1, saves_per90 = NaN, clean_sheets = NaN,
      goals_conceded_per90 = NaN, pressures_per90 = Fin 10\<rparr>"

definition substitute_player :: player_stats where
  "substitute_player =
     champions_league_player
       \<lparr>player_name := ''B'', competition_id := 0, minutes_played := Fin 100,
        passes_per90 := Fin 50\<rparr>"

definition two_players :: "player_stats list" where
  "two_players = [champions_league_player, substitute_player]"

text \<open>Two sources of draws: every age is 28, or every age is 23; every normal draw is 0.\<close>

definition fixed_source :: random_source where
  "fixed_source = \<lparr>raw_ints = (\<lambda>i. 10), gauss = (\<lambda>i. 0)\<rparr>"



text \<open>The table a run saved; empty when the run ended early.\<close>

definition ratings_of :: "outcome \<Rightarrow> rating list" where
  "ratings_of out = (case out of Exit status message \<Rightarrow> [] | Saved table \<Rightarrow> table)"

text \<open>
  A match in which player A has events in minute 0 only and player B up to minute 90,
  and a second match B played to minute 45.
\<close>

definition ev :: "string \<Rightarrow> nat \<Rightarrow> string \<Rightarrow> event" where
  "ev p m t = \<lparr>ev_player = Some p, ev_minute = m, ev_type = t, ev_pass_outcome = None,
               ev_pass_goal_assist = None, ev_shot_outcome = None\<rparr>"

definition first_match :: events_frame where
  "first_match =
     \<lparr>rows = [ev ''A'' 0 ''Pass'', ev ''B'' 0 ''Pass'', ev ''A'' 0 ''Pass'', ev ''B'' 90 ''Shot''],
      match_info = Some (2, 27), has_pass_outcome = False, has_pass_goal_assist = False,
      has_shot_outcome = False\<rparr>"

definition second_match :: events_frame where
  "second_match =
     \<lparr>rows = [ev ''B'' 45 ''Pass''],
      match_info = Some (2, 27), has_pass_outcome = False, has_pass_goal_assist = False,
      has_shot_outcome = False\<rparr>"

text \<open>
  The scenario of the specification: 450 passes, 400 completed, 20 key passes, 3 assists
  in 900 minutes. Its rates are filed under competition 2 (coefficient 1.0); with an age
  of 27 the age factor is 1.0. The second row holds the pass accuracy rounded to 88.89.
\<close>

definition scenario_aggregate :: season_aggregate where
  "scenario_aggregate =
     \<lparr>ag_player = ''P'', ag_minutes_played = 900, ag_matches_played = 10, ag_passes = 450,
      ag_completed_passes = 400, ag_key_passes = 20, ag_assists = 3\<rparr>"

definition scenario_stats :: player_stats where
  "scenario_stats =
     \<lparr>player_name = ''P'', competition_id = 2, minutes_played = Fin 900,
      passes_per90 = rt_passes_per90 (per90 scenario_aggregate),
      pass_accuracy = rt_pass_accuracy (per90 scenario_aggregate),
      key_passes_per90 = rt_key_passes_per90 (per90 scenario_aggregate),
      assists_per90 = rt_assists_per90 (per90 scenario_aggregate),
      shots_per90 = NaN, shots_on_target_per90 = NaN, goals_per90 = NaN, xG_per90 = NaN,
      dribbles_per90 = NaN, dribbles_successful_per90 = NaN, tackles_per90 = NaN,
      tackles_won_per90 = NaN, interceptions_per90 = NaN, clearances_per90 = NaN,
      aerial_duels_per90 = NaN, aerial_duels_won_per90 = NaN, saves_per90 = NaN,
      clean_sheets = NaN, goals_conceded_per90 = NaN, pressures_per90 = NaN\<rparr>"

definition scenario_stats_rounded :: player_stats where
  "scenario_stats_rounded = scenario_stats\<lparr>pass_accuracy := Fin 88.89\<rparr>"

section \<open>Lemmas on rounding\<close>

lemma rint_mono:
  assumes "x \<le> y"
  shows "rint x \<le> rint y"
proof (cases "\<lfloor>x\<rfloor> = \<lfloor>y\<rfloor>")
  case True
  with assms show ?thesis
    unfolding rint_def Let_def by auto
next
  case False
  with assms have lt: "\<lfloor>x\<rfloor> < \<lfloor>y\<rfloor>"
    using floor_mono [OF assms] by linarith
  have "rint x \<le> \<lfloor>x\<rfloor> + 1"
    unfolding rint_def Let_def by auto
  moreover have "\<lfloor>y\<rfloor> \<le> rint y"
    unfolding rint_def Let_def by auto
  ultimately show ?thesis
    using lt by linarith
qed

lemma round2_mono: "x \<le> y \<Longrightarrow> round2 x \<le> round2 y"
  unfolding round2_def using rint_mono [of "x * 100" "y * 100"]
  by (simp add: divide_right_mono)

section \<open>Lemmas on ranks\<close>

lemma sorted_three_parts:
  fixes ys :: "real list"
  assumes "sorted ys"
  shows "ys = filter (\<lambda>y. y < x) ys @ filter (\<lambda>y. y = x) ys @ filter (\<lambda>y. x < y) ys"
  using assms
proof (induction ys)
  case Nil
  then show ?case by simp
next
  case (Cons a ys)
  then have ge: "\<forall>y\<in>set ys. a \<le> y" and IH: "ys = filter (\<lambda>y. y < x) ys @ filter (\<lambda>y. y = x) ys @ filter (\<lambda>y. x < y) ys"
    by simp_all
  show ?case
  proof (cases a x rule: linorder_cases)
    case less
    then show ?thesis using IH by simp
  next
    case equal
    then have "filter (\<lambda>y. y < x) ys = []"
      using ge by (auto simp: filter_empty_conv)
    then show ?thesis using IH equal by simp
  next
    case greater
    then have "filter (\<lambda>y. y < x) ys = []" "filter (\<lambda>y. y = x) ys = []"
      using ge by (auto simp: filter_empty_conv)
    then show ?thesis using IH greater by simp
  qed
qed

lemma filter_upt_interval:
  "filter (\<lambda>i. k \<le> i \<and> i < j) [0..<n] = [k..<min j n]"
proof (induction n)
  case 0
  then show ?case by simp
next
  case (Suc n)
  show ?case
  proof (cases "n < j")
    case True
    then have "min j n = n" "min j (Suc n) = Suc n"
      by simp_all
    with Suc True show ?thesis by auto
  next
    case False
    then have "min j n = j" "min j (Suc n) = j"
      by simp_all
    with Suc False show ?thesis by auto
  qed
qed

lemma sum_list_Suc_upt: "2 * sum_list (map Suc [k..<k + m]) = m * (2 * k + m + 1)"
  by (induction m) auto

lemma nth_three_parts:
  fixes x :: real
  assumes "\<forall>a\<in>set A. a < x" and "\<forall>b\<in>set B. b = x" and "\<forall>c\<in>set C. x < c"
    and "i < length (A @ B @ C)"
  shows "(A @ B @ C) ! i = x \<longleftrightarrow> length A \<le> i \<and> i < length A + length B"
proof -
  consider "i < length A" | "length A \<le> i" "i < length A + length B" | "length A + length B \<le> i"
    by linarith
  then show ?thesis
  proof cases
    case 1
    then have "(A @ B @ C) ! i = A ! i" "A ! i \<in> set A"
      by (simp_all add: nth_append)
    with assms(1) 1 show ?thesis by auto
  next
    case 2
    then have "(A @ B @ C) ! i = B ! (i - length A)" "i - length A < length B"
      by (auto simp: nth_append)
    moreover from this have "B ! (i - length A) \<in> set B"
      by (intro nth_mem)
    ultimately show ?thesis using assms(2) 2 by auto
  next
    case 3
    then have "(A @ B @ C) ! i = C ! (i - length A - length B)" "i - length A - length B < length C"
      using assms(4) by (auto simp: nth_append)
    moreover from this have "C ! (i - length A - length B) \<in> set C"
      by (intro nth_mem)
    ultimately show ?thesis using assms(3) 3 by auto
  qed
qed

lemma sorted_nth_eq_iff:
  fixes ys :: "real list"
  assumes "sorted ys" and "i < length ys"
  shows "ys ! i = x \<longleftrightarrow>
    length (filter (\<lambda>y. y < x) ys) \<le> i \<and> i < length (filter (\<lambda>y. y < x) ys) + length (filter (\<lambda>y. y = x) ys)"
proof -
  let ?A = "filter (\<lambda>y. y < x) ys" and ?B = "filter (\<lambda>y. y = x) ys" and ?C = "filter (\<lambda>y. x < y) ys"
  have ys: "ys = ?A @ ?B @ ?C"
    by (rule sorted_three_parts [OF assms(1)])
  have nth: "ys ! i = (?A @ ?B @ ?C) ! i"
    by (rule arg_cong [OF ys, of "\<lambda>l. l ! i"])
  have len: "length ys = length (?A @ ?B @ ?C)"
    by (rule arg_cong [OF ys, of length])
  have "(?A @ ?B @ ?C) ! i = x \<longleftrightarrow> length ?A \<le> i \<and> i < length ?A + length ?B"
    by (rule nth_three_parts) (use assms(2) len in auto)
  then show ?thesis
    by (simp only: nth)
qed

lemma length_filter_sort:
  fixes xs :: "real list"
  shows "length (filter P (sort xs)) = length (filter P xs)"
  by (simp add: filter_sort)

lemma tie_positions_interval:
  "tie_positions xs x =
     map Suc [length (filter (\<lambda>y. y < x) xs) ..<
              length (filter (\<lambda>y. y < x) xs) + length (filter (\<lambda>y. y = x) xs)]"
proof -
  let ?ys = "sort xs"
  let ?k = "length (filter (\<lambda>y. y < x) ?ys)" and ?m = "length (filter (\<lambda>y. y = x) ?ys)"
  have "filter (\<lambda>i. ?ys ! i = x) [0..<length xs] = filter (\<lambda>i. ?k \<le> i \<and> i < ?k + ?m) [0..<length xs]"
    by (rule filter_cong) (auto simp: sorted_nth_eq_iff)
  also have "\<dots> = [?k..<min (?k + ?m) (length xs)]"
    by (rule filter_upt_interval)
  also have "?k + ?m \<le> length xs"
  proof -
    have "length ?ys = length (filter (\<lambda>y. y < x) ?ys @ filter (\<lambda>y. y = x) ?ys @ filter (\<lambda>y. x < y) ?ys)"
      by (rule arg_cong [OF sorted_three_parts, of _ length]) simp
    then show ?thesis by simp
  qed
  then have "min (?k + ?m) (length xs) = ?k + ?m"
    by simp
  finally show ?thesis
    by (simp add: tie_positions_def length_filter_sort)
qed

lemma rank_average_count:
  assumes "x \<in> set xs"
  shows "rank_average xs x =
     real (length (filter (\<lambda>y. y < x) xs)) + (real (length (filter (\<lambda>y. y = x) xs)) + 1) / 2"
proof -
  let ?k = "length (filter (\<lambda>y. y < x) xs)" and ?m = "length (filter (\<lambda>y. y = x) xs)"
  have m: "0 < ?m"
    using assms by (simp add: length_greater_0_conv filter_empty_conv)
  have "2 * sum_list (tie_positions xs x) = ?m * (2 * ?k + ?m + 1)"
    by (simp only: tie_positions_interval sum_list_Suc_upt)
  then have "real (2 * sum_list (tie_positions xs x)) = real (?m * (2 * ?k + ?m + 1))"
    by (simp only:)
  then have "2 * real (sum_list (tie_positions xs x)) = real ?m * (2 * real ?k + real ?m + 1)"
    by (simp add: algebra_simps)
  moreover have "length (tie_positions xs x) = ?m"
    by (simp add: tie_positions_interval)
  ultimately show ?thesis
    using m by (simp add: rank_average_def field_simps)
qed

lemma rank_average_mono:
  assumes "a \<in> set xs" and "b \<in> set xs" and "b < a"
  shows "rank_average xs b < rank_average xs a"
proof -
  have "length (filter (\<lambda>y. y < b) xs) + length (filter (\<lambda>y. y = b) xs)
      = length (filter (\<lambda>y. y < b \<or> y = b) xs)"
    by (induction xs) auto
  also have "\<dots> \<le> length (filter (\<lambda>y. y < a) xs)"
    using assms(3) by (induction xs) auto
  finally have le: "real (length (filter (\<lambda>y. y < b) xs)) + real (length (filter (\<lambda>y. y = b) xs))
      \<le> real (length (filter (\<lambda>y. y < a) xs))"
    by (metis of_nat_add of_nat_le_iff)
  have "filter (\<lambda>y. y = b) xs \<noteq> []"
    using assms(2) by (simp add: filter_empty_conv)
  then have "1 \<le> length (filter (\<lambda>y. y = b) xs)"
    by (cases "filter (\<lambda>y. y = b) xs") simp_all
  then have one: "1 \<le> real (length (filter (\<lambda>y. y = b) xs))"
    by (metis of_nat_1 of_nat_le_iff)
  have "0 \<le> real (length (filter (\<lambda>y. y = a) xs))"
    by simp
  moreover have "\<And>L E A F :: real. L + E \<le> A \<Longrightarrow> 1 \<le> E \<Longrightarrow> 0 \<le> F \<Longrightarrow>
      L + (E + 1) / 2 < A + (F + 1) / 2"
    by (simp add: field_simps)
  ultimately show ?thesis
    unfolding rank_average_count [OF assms(1)] rank_average_count [OF assms(2)]
    using le one by blast
qed

section \<open>The scaler meets its specification\<close>


lemma mask_sum_pos: "0 < length (filter id bs) \<longleftrightarrow> True \<in> set bs"
  by (induction bs) auto

lemma baseline_nonempty:
  assumes "length s = length bs" and "True \<in> set bs"
  shows "0 < length (map fst (filter snd (zip s bs)))"
proof -
  from assms(2) obtain i where i: "i < length bs" "bs ! i"
    by (auto simp: in_set_conv_nth)
  with assms(1) have "(s ! i, bs ! i) \<in> set (zip s bs)"
    by (auto simp: set_zip)
  with i(2) have "(s ! i, True) \<in> set (filter snd (zip s bs))"
    by simp
  then have "filter snd (zip s bs) \<noteq> []"
    by (metis empty_iff empty_set)
  then show ?thesis by simp
qed

lemma percentile_branch:
  assumes "length minutes_col = length series" and "True \<in> set (map (qualifies m) minutes_col)"
  shows "percentile_to_1_20 minutes_col series m
     = map (\<lambda>r. round2 (1 + r * 19)) (rank_pct (map (fillna 0) series))"
proof -
  have A: "0 < length (filter id (map (qualifies m) minutes_col))"
    using assms(2) by (simp only: mask_sum_pos)
  have B: "0 < length (map fst (filter snd (zip (map (fillna 0) series) (map (qualifies m) minutes_col))))"
    by (rule baseline_nonempty) (use assms in simp_all)
  show ?thesis
    unfolding percentile_to_1_20_def Let_def by (simp only: A B if_True)
qed



text \<open>
  C10. For a fixed series the scaler gives the same result under every mask that selects
  at least one player: the baseline is computed and never used.
\<close>

theorem percentile_to_1_20_mask_irrelevant:
  assumes "length minutes1 = length series" and "length minutes2 = length series"
    and "\<exists>v\<in>set minutes1. qualifies min_minutes v" and "\<exists>v\<in>set minutes2. qualifies min_minutes v"
  shows "percentile_to_1_20 minutes1 series min_minutes = percentile_to_1_20 minutes2 series min_minutes"
proof -
  have "True \<in> set (map (qualifies min_minutes) minutes1)" "True \<in> set (map (qualifies min_minutes) minutes2)"
    using assms(3,4) by (auto simp: image_iff)
  then show ?thesis
    by (simp add: percentile_branch assms(1,2))
qed

lemma rank_branch_mono:
  assumes "i < length s" and "j < length s" and "s ! j < s ! i"
  shows "map (\<lambda>r. round2 (1 + r * 19)) (rank_pct s) ! j \<le> map (\<lambda>r. round2 (1 + r * 19)) (rank_pct s) ! i"
proof -
  have "rank_average s (s ! j) < rank_average s (s ! i)"
    by (rule rank_average_mono) (use assms in auto)
  moreover have "0 < real (length s)"
    using assms(1) by (cases s) simp_all
  ultimately have "rank_average s (s ! j) / real (length s) \<le> rank_average s (s ! i) / real (length s)"
    by (simp add: divide_right_mono)
  then have "round2 (1 + rank_average s (s ! j) / real (length s) * 19)
      \<le> round2 (1 + rank_average s (s ! i) / real (length s) * 19)"
    by (intro round2_mono add_left_mono mult_right_mono) simp_all
  then show ?thesis
    using assms(1,2) by (simp add: rank_pct_def)
qed

lemma minmax_scaling_mono:
  assumes "i < length s" and "j < length s" and "s ! j < s ! i"
  shows "minmax_scaling s ! j \<le> minmax_scaling s ! i"
proof -
  have "s ! i \<in> set s"
    using assms(1) by simp
  then have "Min (set s) \<le> Max (set s)"
    by (metis List.finite_set Min_le Max_ge order_trans)
  then have d: "0 < Max (set s) - Min (set s) + 1 / 10 ^ 8"
    by simp
  have "(s ! j - Min (set s)) / (Max (set s) - Min (set s) + 1 / 10 ^ 8)
      \<le> (s ! i - Min (set s)) / (Max (set s) - Min (set s) + 1 / 10 ^ 8)"
    using assms(3) d by (intro divide_right_mono) simp_all
  then have "round2 ((s ! j - Min (set s)) / (Max (set s) - Min (set s) + 1 / 10 ^ 8) * 19 + 1)
      \<le> round2 ((s ! i - Min (set s)) / (Max (set s) - Min (set s) + 1 / 10 ^ 8) * 19 + 1)"
    by (intro round2_mono add_right_mono mult_right_mono) simp_all
  then show ?thesis
    using assms(1,2) by (simp add: minmax_scaling_def)
qed

text \<open>
  C7. The scaler is monotone: an entry with a larger metric value (after missing values
  are read as 0) gets a scaled value at least as large, whichever branch is taken.
\<close>

theorem percentile_to_1_20_monotone:
  assumes "i < length series" and "j < length series"
    and "fillna 0 (series ! j) < fillna 0 (series ! i)"
  shows "percentile_to_1_20 minutes_col series min_minutes ! j
     \<le> percentile_to_1_20 minutes_col series min_minutes ! i"
proof -
  let ?s = "map (fillna 0) series"
  have s: "i < length ?s" "j < length ?s" "?s ! j < ?s ! i"
    using assms by simp_all
  note a = rank_branch_mono [OF s] minmax_scaling_mono [OF s]
  show ?thesis
    unfolding percentile_to_1_20_def Let_def using a by (simp del: length_map)
qed


theorem percentile_to_1_20_mask_irrelevant_witness:
  "(\<exists>v\<in>set [Fin 600, Fin 10, NaN, Fin 0]. qualifies 500 v)
   \<and> (\<exists>v\<in>set [Fin 0, Fin 500, Fin 700, NaN]. qualifies 500 v)
   \<and> percentile_to_1_20 [Fin 600, Fin 10, NaN, Fin 0] [Fin 3, Fin 1, NaN, Fin 3] 500
       = percentile_to_1_20 [Fin 0, Fin 500, Fin 700, NaN] [Fin 3, Fin 1, NaN, Fin 3] 500"
  using percentile_to_1_20_mask_irrelevant
    [of "[Fin 600, Fin 10, NaN, Fin 0]" "[Fin 3, Fin 1, NaN, Fin 3]" "[Fin 0, Fin 500, Fin 700, NaN]" 500]
  by (simp add: qualifies_def)

theorem percentile_to_1_20_monotone_witness:
  "fillna 0 ([Fin 3, Fin 1, NaN, Fin 3] ! 2) < fillna 0 ([Fin 3, Fin 1, NaN, Fin 3] ! 1)
   \<and> percentile_to_1_20 [Fin 600, Fin 10, NaN, Fin 0] [Fin 3, Fin 1, NaN, Fin 3] 500 ! 2
       \<le> percentile_to_1_20 [Fin 600, Fin 10, NaN, Fin 0] [Fin 3, Fin 1, NaN, Fin 3] 500 ! 1
   \<and> percentile_to_1_20 [Fin 60, Fin 10, NaN, Fin 0] [Fin 3, Fin 1, NaN, Fin 3] 500 ! 2
       \<le> percentile_to_1_20 [Fin 60, Fin 10, NaN, Fin 0] [Fin 3, Fin 1, NaN, Fin 3] 500 ! 1"
  using percentile_to_1_20_monotone [of 1 "[Fin 3, Fin 1, NaN, Fin 3]" 2 "[Fin 600, Fin 10, NaN, Fin 0]" 500]
    percentile_to_1_20_monotone [of 1 "[Fin 3, Fin 1, NaN, Fin 3]" 2 "[Fin 60, Fin 10, NaN, Fin 0]" 500]
  by (simp add: fillna_def)

section \<open>Players without minutes never reach the rates\<close>

lemma player_loop_minutes:
  assumes "pm \<in> set (player_loop events comp_id season_id players)"
  shows "0 < pm_minutes_played pm
     \<and> (\<exists>e\<in>set (rows events). ev_player e = Some (pm_player pm)
            \<and> ev_minute e = pm_minutes_played pm)"
  using assms
proof (induction players)
  case Nil
  then show ?case by simp
next
  case (Cons player rest)
  let ?pe = "filter (\<lambda>e. ev_player e = Some player) (rows events)"
  let ?minutes = "if 0 < length ?pe then Max (set (map ev_minute ?pe)) else 0"
  show ?case
  proof (cases "?minutes = 0")
    case True
    with Cons show ?thesis
      by (simp add: Let_def)
  next
    case False
    then have ne: "?pe \<noteq> []" and m: "?minutes = Max (set (map ev_minute ?pe))"
      by (auto split: if_splits)
    from Cons.prems False
    consider "pm = player_stat events comp_id season_id player ?minutes"
      | "pm \<in> set (player_loop events comp_id season_id rest)"
      by (auto simp: Let_def split: if_splits)
    then show ?thesis
    proof cases
      case 1
      have "Max (set (map ev_minute ?pe)) \<in> set (map ev_minute ?pe)"
        using ne by (intro Max_in) (auto simp: filter_empty_conv)
      then obtain e where "e \<in> set ?pe" "ev_minute e = Max (set (map ev_minute ?pe))"
        by auto
      then have "e \<in> set (rows events)" "ev_player e = Some player" "ev_minute e = ?minutes"
        using m by simp_all
      moreover have "pm_minutes_played pm = ?minutes" "pm_player pm = player"
        using 1 by (simp_all add: player_stat_def Let_def)
      moreover have "0 < ?minutes"
        using False by simp
      ultimately show ?thesis
        by (simp only:) blast
    next
      case 2
      then show ?thesis by (rule Cons.IH)
    qed
  qed
qed

lemma process_match_minutes:
  assumes "pm \<in> set (process_match events)"
  shows "0 < pm_minutes_played pm
     \<and> (\<exists>e\<in>set (rows events). ev_player e = Some (pm_player pm)
            \<and> ev_minute e = pm_minutes_played pm)"
  using assms player_loop_minutes
  by (auto simp: process_match_def split: if_splits option.splits)

lemma sum_list_pos:
  fixes ns :: "nat list"
  assumes "ns \<noteq> []" and "\<forall>n\<in>set ns. 0 < n"
  shows "0 < sum_list ns"
  using assms by (cases ns) auto

lemma aggregate_minutes:
  assumes "\<forall>pm\<in>set df_players. 0 < pm_minutes_played pm" and "a \<in> set (aggregate df_players)"
  shows "0 < ag_minutes_played a"
proof -
  have "\<exists>p\<in>set (map pm_player df_players). ag_minutes_played a
            = sum_list (map pm_minutes_played (filter (\<lambda>r. pm_player r = p) df_players))"
    using assms(2) by (force simp: aggregate_def Let_def)
  then obtain p where p: "p \<in> set (map pm_player df_players)"
    and a: "ag_minutes_played a
            = sum_list (map pm_minutes_played (filter (\<lambda>r. pm_player r = p) df_players))"
    by blast
  from p have "filter (\<lambda>r. pm_player r = p) df_players \<noteq> []"
    by (auto simp: filter_empty_conv)
  then have "map pm_minutes_played (filter (\<lambda>r. pm_player r = p) df_players) \<noteq> []"
    by simp
  moreover have "\<forall>n\<in>set (map pm_minutes_played (filter (\<lambda>r. pm_player r = p) df_players)). 0 < n"
    using assms(1) by auto
  ultimately show ?thesis
    unfolding a by (rule sum_list_pos)
qed

lemma per90_passes:
  "0 < ag_minutes_played a \<Longrightarrow>
   rt_passes_per90 (per90 a) = Fin (real (ag_passes a) / (real (ag_minutes_played a) / 90))"
  by (simp add: per90_def Let_def divide_fl_def)

text \<open>
  C2. A player whose minutes in a match are 0 is passed over before any row is written
  for him (each written row has the positive minute of one of his events), so every
  row that reaches the aggregation, and every season aggregate, has positive minutes;
  the per-90 rate of an aggregate is then the count over a non-zero \<open>minutes / 90\<close>,
  never a rate made up for an unplayed player.
\<close>

theorem zero_minutes_excluded:
  "(\<forall>events\<in>set matches. \<forall>pm\<in>set (process_match events).
       0 < pm_minutes_played pm
       \<and> (\<exists>e\<in>set (rows events). ev_player e = Some (pm_player pm)
              \<and> ev_minute e = pm_minutes_played pm))
   \<and> (\<forall>pm\<in>set (process_matches matches). 0 < pm_minutes_played pm)
   \<and> (\<forall>a\<in>set (aggregate (process_matches matches)).
         0 < ag_minutes_played a
         \<and> rt_passes_per90 (per90 a)
             = Fin (real (ag_passes a) / (real (ag_minutes_played a) / 90)))"
proof -
  have one: "\<forall>events\<in>set matches. \<forall>pm\<in>set (process_match events).
       0 < pm_minutes_played pm
       \<and> (\<exists>e\<in>set (rows events). ev_player e = Some (pm_player pm)
              \<and> ev_minute e = pm_minutes_played pm)"
    using process_match_minutes by blast
  then have all: "\<forall>pm\<in>set (process_matches matches). 0 < pm_minutes_played pm"
    by (auto simp: process_matches_def)
  then have "\<forall>a\<in>set (aggregate (process_matches matches)). 0 < ag_minutes_played a"
    using aggregate_minutes by blast
  with one all show ?thesis
    by (simp add: per90_passes)
qed

theorem zero_minutes_excluded_witness:
  "map pm_player (process_match first_match) = [''B'']
   \<and> 0 < pm_minutes_played (hd (process_match first_match))
   \<and> map pm_player (process_matches [first_match, second_match]) = [''B'', ''B'']
   \<and> map pm_minutes_played (process_matches [first_match, second_match]) = [90, 45]
   \<and> 0 < pm_minutes_played (hd (process_matches [first_match, second_match]))
   \<and> map ag_player (aggregate (process_matches [first_match, second_match])) = [''B'']
   \<and> 0 < ag_minutes_played (hd (aggregate (process_matches [first_match, second_match])))
   \<and> rt_passes_per90 (per90 (hd (aggregate (process_matches [first_match, second_match]))))
       = Fin (real (ag_passes (hd (aggregate (process_matches [first_match, second_match]))))
              / (real (ag_minutes_played (hd (aggregate (process_matches [first_match, second_match])))) / 90))"
proof -
  note T = zero_minutes_excluded [of "[first_match, second_match]"]
  have f: "map pm_player (process_match first_match) = [''B'']"
    by code_simp
  then have "process_match first_match \<noteq> []"
    by auto
  then have "hd (process_match first_match) \<in> set (process_match first_match)"
    by (rule hd_in_set)
  moreover have "first_match \<in> set [first_match, second_match]"
    by simp
  ultimately have f0: "0 < pm_minutes_played (hd (process_match first_match))"
    using T [THEN conjunct1] by blast
  have a: "map pm_player (process_matches [first_match, second_match]) = [''B'', ''B'']"
    by code_simp
  then have "process_matches [first_match, second_match] \<noteq> []"
    by auto
  then have "hd (process_matches [first_match, second_match])
      \<in> set (process_matches [first_match, second_match])"
    by (rule hd_in_set)
  then have a0: "0 < pm_minutes_played (hd (process_matches [first_match, second_match]))"
    by (rule T [THEN conjunct2, THEN conjunct1, rule_format])
  have b: "map pm_minutes_played (process_matches [first_match, second_match]) = [90, 45]"
    by code_simp
  have c: "map ag_player (aggregate (process_matches [first_match, second_match])) = [''B'']"
    by code_simp
  then have "aggregate (process_matches [first_match, second_match]) \<noteq> []"
    by auto
  then have "hd (aggregate (process_matches [first_match, second_match]))
      \<in> set (aggregate (process_matches [first_match, second_match]))"
    by (rule hd_in_set)
  then have d: "0 < ag_minutes_played (hd (aggregate (process_matches [first_match, second_match])))
     \<and> rt_passes_per90 (per90 (hd (aggregate (process_matches [first_match, second_match]))))
       = Fin (real (ag_passes (hd (aggregate (process_matches [first_match, second_match]))))
              / (real (ag_minutes_played (hd (aggregate (process_matches [first_match, second_match])))) / 90))"
    by (rule T [THEN conjunct2, THEN conjunct2, rule_format])
  from f f0 a b a0 c d show ?thesis
    by (elim conjE, intro conjI) assumption+
qed

section \<open>The passing scenario\<close>

lemmas fl_arith = plus_fl_def minus_fl_def times_fl_def divide_fl_def fillna_def

lemma scenario_rates:
  "per90 scenario_aggregate =
     \<lparr>rt_player = ''P'', rt_minutes_played = 900, rt_matches_played = 10,
      rt_passes_per90 = Fin 45, rt_completed_passes_per90 = Fin 40,
      rt_pass_accuracy = Fin (800 / 9), rt_key_passes_per90 = Fin 2,
      rt_assists_per90 = Fin (3 / 10)\<rparr>"
  by (simp add: per90_def scenario_aggregate_def Let_def fl_arith)

lemma coef: "get_league_coefficient 2 = 1" "calculate_age_factor 27 = 1"
  by (simp_all add: get_league_coefficient_def league_coeffs_def calculate_age_factor_def)

text \<open>
  C6 as the code has it. For 450 passes, 400 completed, 20 key passes and 3 assists in 900
  minutes the rates are 45 passes, 2 key passes and 0.3 assists per 90 minutes; the pass
  accuracy is 800/9, which is 88.89 only after rounding to two decimals, and the script
  does not round it. With league coefficient 1.0 and age factor 1.0 the passing
  weighted sum is 45*0.3 + (800/9)*0.25 + 2*0.25 + 0.3*0.2 = 16327/450, about 36.2822;
  with 88.89 in place of 800/9 it is 36.2825.
\<close>

theorem passing_scenario:
  "rt_passes_per90 (per90 scenario_aggregate) = Fin 45
   \<and> rt_pass_accuracy (per90 scenario_aggregate) = Fin (800 / 9)
   \<and> round2 (800 / 9) = 8889 / 100
   \<and> rt_key_passes_per90 (per90 scenario_aggregate) = Fin 2
   \<and> rt_assists_per90 (per90 scenario_aggregate) = Fin (3 / 10)
   \<and> get_league_coefficient (competition_id scenario_stats) = 1
   \<and> calculate_age_factor 27 = 1
   \<and> passing_raw scenario_stats 27 = Fin (45 * 0.3 + 800 / 9 * 0.25 + 2 * 0.25 + 0.3 * 0.2)
   \<and> passing_raw scenario_stats 27 = Fin (16327 / 450)
   \<and> passing_raw scenario_stats_rounded 27 = Fin (362825 / 10000)"
proof -
  have raw: "passing_raw scenario_stats 27 = Fin (16327 / 450)"
    by (simp add: passing_raw_def scenario_stats_def scenario_rates coef fl_arith)
  have rounded: "passing_raw scenario_stats_rounded 27 = Fin (362825 / 10000)"
    by (simp add: passing_raw_def scenario_stats_rounded_def scenario_stats_def scenario_rates
        coef fl_arith)
  have r2: "round2 (800 / 9) = 8889 / 100"
    by (simp add: round2_def rint_def Let_def)
  have comp: "competition_id scenario_stats = 2"
    by (simp add: scenario_stats_def)
  show ?thesis
    by (simp add: scenario_rates raw rounded r2 comp coef)
qed

text \<open>
  The claim as stated fails on the same input: the pass accuracy is not 88.89, and the
  weighted sum is not 35.8225, with the exact accuracy or with the rounded one.
\<close>

theorem passing_scenario_counterexample:
  "rt_pass_accuracy (per90 scenario_aggregate) \<noteq> Fin (8889 / 100)
   \<and> passing_raw scenario_stats 27 \<noteq> Fin (358225 / 10000)
   \<and> passing_raw scenario_stats_rounded 27 \<noteq> Fin (358225 / 10000)"
proof -
  have raw: "passing_raw scenario_stats 27 = Fin (16327 / 450)"
    by (simp add: passing_raw_def scenario_stats_def scenario_rates coef fl_arith)
  have rounded: "passing_raw scenario_stats_rounded 27 = Fin (362825 / 10000)"
    by (simp add: passing_raw_def scenario_stats_rounded_def scenario_stats_def scenario_rates
        coef fl_arith)
  show ?thesis
    by (simp add: scenario_rates raw rounded)
qed

section \<open>A run of the attribute script\<close>




lemma script5_Saved:
  assumes "script5 df_stats src = Saved table"
  shows "table = map (rating_at df_stats (draw_ages df_stats src) (gauss src)) [0..<length df_stats]"
  using assms by (simp add: script5_def Let_def split: if_splits)


lemma script5_nth:
  assumes "script5 df_stats src = Saved table" and "i < length df_stats"
  shows "table ! i = rating_at df_stats (draw_ages df_stats src) (gauss src) i"
  using assms(2) unfolding script5_Saved [OF assms(1)] by simp

lemma script5_nonempty:
  "df_stats \<noteq> [] \<Longrightarrow> script5 df_stats src = Saved (ratings_of (script5 df_stats src))"
  by (simp add: script5_def ratings_of_def Let_def)

lemma rating_at_PA:
  "PA (rating_at df_stats ages gs i) = compute_PA (CA (rating_at df_stats ages gs i)) (ages ! i) (gs i)"
  by (simp add: rating_at_def Let_def)

lemma rating_at_positions:
  "r_attrs (rating_at df_stats ages gs i) = attributes_at df_stats ages i"
  "CA_GK (rating_at df_stats ages gs i)
     = compute_position_CA (df_stats ! i) (ages ! i) (r_attrs (rating_at df_stats ages gs i)) ''GK''"
  "CA_DEF (rating_at df_stats ages gs i)
     = compute_position_CA (df_stats ! i) (ages ! i) (r_attrs (rating_at df_stats ages gs i)) ''DEF''"
  "CA_MID (rating_at df_stats ages gs i)
     = compute_position_CA (df_stats ! i) (ages ! i) (r_attrs (rating_at df_stats ages gs i)) ''MID''"
  "CA_FWD (rating_at df_stats ages gs i)
     = compute_position_CA (df_stats ! i) (ages ! i) (r_attrs (rating_at df_stats ages gs i)) ''FWD''"
  by (simp_all add: rating_at_def Let_def)








text \<open>
  C8 as the code has it. With an empty population the script computes no attribute and
  writes no table: it prints "No player stats found in database" and ends through
  \<open>exit()\<close>, whose status is 0. The early exit is taken for the empty population
  only, and no run of the script ends with a status other than 0.
\<close>

theorem empty_population_exit:
  "script5 [] src = Exit 0 ''No player stats found in database''
   \<and> ratings_of (script5 [] src) = []
   \<and> (script5 df_stats src = Exit status message) =
       (df_stats = [] \<and> status = 0 \<and> message = ''No player stats found in database'')
   \<and> exit_status (script5 df_stats src) = 0"
proof -
  have empty: "script5 [] src = Exit 0 ''No player stats found in database''"
    by (simp add: script5_def)
  have exits: "(script5 df_stats src = Exit status message) =
       (df_stats = [] \<and> status = 0 \<and> message = ''No player stats found in database'')"
  proof (cases "df_stats = []")
    case True
    then show ?thesis
      using empty by auto
  next
    case False
    then show ?thesis
      by (simp add: script5_def Let_def)
  qed
  have status: "exit_status (script5 df_stats src) = 0"
    by (cases "df_stats = []") (simp_all add: script5_def exit_status_def Let_def)
  from empty exits status show ?thesis
    by (simp add: ratings_of_def)
qed

text \<open>The claim as stated fails: the exit status of that run does not signal an error.\<close>

theorem empty_population_status_counterexample:
  "\<not> exit_status (script5 [] fixed_source) \<noteq> 0"
  by (simp add: script5_def exit_status_def)

lemma length_draw_ages: "length (draw_ages df_stats src) = length df_stats"
  by (simp add: draw_ages_def randint_def)

lemma draw_ages_nth:
  "i < length df_stats \<Longrightarrow> draw_ages df_stats src ! i = 18 + int (raw_ints src i mod 17)"
  by (simp add: draw_ages_def randint_def)

lemma draw_ages_range:
  assumes "i < length df_stats"
  shows "18 \<le> draw_ages df_stats src ! i \<and> draw_ages df_stats src ! i \<le> 34"
proof -
  have "raw_ints src i mod 17 < 17"
    by simp
  then have "int (raw_ints src i mod 17) \<le> 16"
    by linarith
  then show ?thesis
    by (simp add: draw_ages_nth [OF assms])
qed

lemma draw_ages_attainable:
  assumes "i < length df_stats" and "18 \<le> a" and "a \<le> 34"
  shows "\<exists>src'. draw_ages df_stats src' ! i = a"
proof -
  let ?src = "\<lparr>raw_ints = (\<lambda>k. nat (a - 18)), gauss = (\<lambda>k. 0)\<rparr>"
  have "nat (a - 18) < 17"
    using assms(2,3) by linarith
  then have "nat (a - 18) mod 17 = nat (a - 18)"
    by simp
  then have "draw_ages df_stats ?src ! i = a"
    using assms(2) by (simp add: draw_ages_nth [OF assms(1)])
  then show ?thesis ..
qed

text \<open>
  C9. In a run that rates its players, the age of every row is a draw of
  \<open>randint(18, 35)\<close>: it lies between 18 and 34, it is the same for any other frame of
  the same length (no field of a record enters it), every value from 18 to 34 is the
  age under some source, and it is this age that the attribute columns, the four
  position CAs and the PA of the row are computed with. (That the draw is uniform is a
  property of NumPy's generator, which the source of draws stands for.)
\<close>

theorem age_drawn_independent_of_records:
  assumes "script5 df_stats src = Saved table" and "i < length df_stats"
  shows "18 \<le> draw_ages df_stats src ! i \<and> draw_ages df_stats src ! i \<le> 34
     \<and> (\<forall>df'. length df' = length df_stats \<longrightarrow> draw_ages df' src = draw_ages df_stats src)
     \<and> (\<forall>a. 18 \<le> a \<and> a \<le> 34 \<longrightarrow> (\<exists>src'. draw_ages df_stats src' ! i = a))
     \<and> r_attrs (table ! i) = attributes_at df_stats (draw_ages df_stats src) i
     \<and> CA_GK (table ! i)
         = compute_position_CA (df_stats ! i) (draw_ages df_stats src ! i) (r_attrs (table ! i)) ''GK''
     \<and> CA_DEF (table ! i)
         = compute_position_CA (df_stats ! i) (draw_ages df_stats src ! i) (r_attrs (table ! i)) ''DEF''
     \<and> CA_MID (table ! i)
         = compute_position_CA (df_stats ! i) (draw_ages df_stats src ! i) (r_attrs (table ! i)) ''MID''
     \<and> CA_FWD (table ! i)
         = compute_position_CA (df_stats ! i) (draw_ages df_stats src ! i) (r_attrs (table ! i)) ''FWD''
     \<and> PA (table ! i) = compute_PA (CA (table ! i)) (draw_ages df_stats src ! i) (gauss src i)"
proof -
  have range: "18 \<le> draw_ages df_stats src ! i \<and> draw_ages df_stats src ! i \<le> 34"
    by (rule draw_ages_range [OF assms(2)])
  have indep: "\<forall>df'. length df' = length df_stats \<longrightarrow> draw_ages df' src = draw_ages df_stats src"
    by (simp add: draw_ages_def)
  have every: "\<forall>a. 18 \<le> a \<and> a \<le> 34 \<longrightarrow> (\<exists>src'. draw_ages df_stats src' ! i = a)"
    using draw_ages_attainable [OF assms(2)] by blast
  have row: "table ! i = rating_at df_stats (draw_ages df_stats src) (gauss src) i"
    by (rule script5_nth [OF assms])
  have use: "r_attrs (table ! i) = attributes_at df_stats (draw_ages df_stats src) i
     \<and> CA_GK (table ! i)
         = compute_position_CA (df_stats ! i) (draw_ages df_stats src ! i) (r_attrs (table ! i)) ''GK''
     \<and> CA_DEF (table ! i)
         = compute_position_CA (df_stats ! i) (draw_ages df_stats src ! i) (r_attrs (table ! i)) ''DEF''
     \<and> CA_MID (table ! i)
         = compute_position_CA (df_stats ! i) (draw_ages df_stats src ! i) (r_attrs (table ! i)) ''MID''
     \<and> CA_FWD (table ! i)
         = compute_position_CA (df_stats ! i) (draw_ages df_stats src ! i) (r_attrs (table ! i)) ''FWD''
     \<and> PA (table ! i) = compute_PA (CA (table ! i)) (draw_ages df_stats src ! i) (gauss src i)"
    unfolding row by (simp only: rating_at_positions rating_at_PA simp_thms)
  from range indep every use show ?thesis
    by (elim conjE, intro conjI) assumption+
qed

theorem age_drawn_independent_of_records_witness:
  "draw_ages two_players fixed_source = [28, 28]
   \<and> 18 \<le> draw_ages two_players fixed_source ! 0
   \<and> draw_ages two_players fixed_source ! 0 \<le> 34
   \<and> draw_ages (rev two_players) fixed_source = draw_ages two_players fixed_source
   \<and> (\<exists>src'. draw_ages two_players src' ! 0 = 30)
   \<and> PA (ratings_of (script5 two_players fixed_source) ! 0)
       = compute_PA (CA (ratings_of (script5 two_players fixed_source) ! 0))
           (draw_ages two_players fixed_source ! 0) (gauss fixed_source 0)"
proof -
  have s: "script5 two_players fixed_source = Saved (ratings_of (script5 two_players fixed_source))"
    by (rule script5_nonempty) (simp add: two_players_def)
  have i: "0 < length two_players"
    by (simp add: two_players_def)
  note T = age_drawn_independent_of_records [OF s i]
  have ages: "draw_ages two_players fixed_source = [28, 28]"
    by code_simp
  have lo: "18 \<le> draw_ages two_players fixed_source ! 0"
    by (rule T [THEN conjunct1])
  have hi: "draw_ages two_players fixed_source ! 0 \<le> 34"
    by (rule T [THEN conjunct2, THEN conjunct1])
  have indep: "draw_ages (rev two_players) fixed_source = draw_ages two_players fixed_source"
    by (rule T [THEN conjunct2, THEN conjunct2, THEN conjunct1, rule_format]) simp
  have every: "\<exists>src'. draw_ages two_players src' ! 0 = 30"
    by (rule T [THEN conjunct2, THEN conjunct2, THEN conjunct2, THEN conjunct1, rule_format]) simp
  have pa: "PA (ratings_of (script5 two_players fixed_source) ! 0)
       = compute_PA (CA (ratings_of (script5 two_players fixed_source) ! 0))
           (draw_ages two_players fixed_source ! 0) (gauss fixed_source 0)"
    using T by (elim conjE)
  from ages lo hi indep every pa show ?thesis
    by (intro conjI) assumption+
qed





end
